theory Spec2Isabelle
  imports Main "HOL-Library.Word" "HOL-Library.Code_Target_Numeral"
begin

section \<open>The IR data that llpcSpirvLowerUtil.cpp reads and writes\<close>

text \<open>
  The file works on an LLVM module through pointers. Types, constants and metadata nodes
  are uniqued per context, so comparing two of them by pointer is comparing them by
  structure; they are values here. The context that owns them is only a number. A
  \<open>Function *\<close> into a module is the position of the function in the module's
  function list.

  The definitions describe the file as compiled with assertions, unless their name ends
  in \<open>NDEBUG\<close>. In that build an assertion that fails, \<open>llvm_unreachable\<close> and a
  call through a null pointer end the process. They are the values of \<open>fault\<close>, and
  every operation that can end so returns \<open>fault + 'a\<close>. Compiled with \<open>NDEBUG\<close>,
  \<open>assert\<close> expands to nothing and reaching \<open>llvm_unreachable\<close> has no defined
  behaviour.
\<close>

datatype fault =
    EntryPointAssert      \<comment> \<open>\<open>assert(entryPoint)\<close> in \<open>getEntryPoint\<close>\<close>
  | UnreachableExecuted   \<comment> \<open>\<open>llvm_unreachable("Should never be called!")\<close>\<close>
  | NullDereference       \<comment> \<open>a member call on the null result of \<open>dyn_extract\<close>\<close>
  | LibraryAssert         \<comment> \<open>an assertion inside an LLVM accessor\<close>

datatype LinkageTypes =
    ExternalLinkage
  | AvailableExternallyLinkage
  | LinkOnceAnyLinkage
  | LinkOnceODRLinkage
  | WeakAnyLinkage
  | WeakODRLinkage
  | AppendingLinkage
  | InternalLinkage
  | PrivateLinkage
  | ExternalWeakLinkage
  | CommonLinkage

text \<open>
  An integer constant has a bit width and an unsigned value, in this order;
  \<open>ConstantInt::get\<close> keeps the low bits that fit the type.
\<close>

datatype Constant =
    ConstantInt nat nat
  | ConstantFP string
  | ConstantPointerNull
  | UndefValue

definition ConstantInt_get :: "nat \<Rightarrow> nat \<Rightarrow> Constant" where
  "ConstantInt_get bits v = ConstantInt bits (v mod 2 ^ bits)"

datatype Metadata =
    ConstantAsMetadata Constant
  | MDString string
  | MDTuple "Metadata option list"

text \<open>A metadata node is its operand list; an operand may be null.\<close>

type_synonym MDNode = "Metadata option list"

definition MDNode_get :: "Metadata option list \<Rightarrow> MDNode" where
  "MDNode_get ops = ops"

definition getOperand :: "MDNode \<Rightarrow> nat \<Rightarrow> fault + Metadata option" where
  "getOperand node i = (if i < length node then Inr (node ! i) else Inl LibraryAssert)"

text \<open>
  \<open>mdconst::dyn_extract<ConstantInt>\<close>: the integer constant that the metadata wraps,
  null when it wraps none; the cast asserts on a null operand.
\<close>

fun dyn_extract_ConstantInt :: "Metadata option \<Rightarrow> fault + Constant option" where
  "dyn_extract_ConstantInt None = Inl LibraryAssert"
| "dyn_extract_ConstantInt (Some (ConstantAsMetadata (ConstantInt bits v))) =
     Inr (Some (ConstantInt bits v))"
| "dyn_extract_ConstantInt (Some _) = Inr None"

text \<open>
  \<open>ConstantInt::getZExtValue\<close> returns a \<open>uint64_t\<close>; compiled with assertions,
  LLVM asserts that the value has no more than 64 active bits. The receiver is the result
  of \<open>dyn_extract\<close>, so it may be null.
\<close>

fun getZExtValue :: "Constant option \<Rightarrow> fault + 64 word" where
  "getZExtValue None = Inl NullDereference"
| "getZExtValue (Some (ConstantInt bits v)) =
     (if v < 2 ^ 64 then Inr (word_of_nat v) else Inl LibraryAssert)"
| "getZExtValue (Some _) = Inl NullDereference"

record Function =
  getName :: string
  basicBlocks :: "string list"
  getLinkage :: LinkageTypes
  attachments :: "(string \<times> MDNode) list"

definition empty_body :: "Function \<Rightarrow> bool" where
  "empty_body f = (basicBlocks f = [])"

definition getMetadata :: "Function \<Rightarrow> string \<Rightarrow> MDNode option" where
  "getMetadata f kind = map_of (attachments f) kind"

text \<open>Attaching a node replaces whatever the function had under that kind.\<close>

definition setMetadata :: "Function \<Rightarrow> string \<Rightarrow> MDNode \<Rightarrow> Function" where
  "setMetadata f kind node =
     f\<lparr>attachments := filter (\<lambda>a. fst a \<noteq> kind) (attachments f) @ [(kind, node)]\<rparr>"

record Module =
  getContext :: nat
  getFunctionList :: "Function list"

section \<open>getEntryPoint\<close>

text \<open>
  The loop of \<open>getEntryPoint\<close> over the function list, from position \<open>i\<close> on:
  the position of the first function that is not empty and has external linkage;
  \<open>None\<close> is \<open>entryPoint\<close> still null at the end of the loop.
\<close>

fun findEntryPoint :: "Function list \<Rightarrow> nat \<Rightarrow> nat option" where
  "findEntryPoint [] i = None"
| "findEntryPoint (func # rest) i =
     (if \<not> empty_body func \<and> getLinkage func = ExternalLinkage then Some i
      else findEntryPoint rest (Suc i))"

text \<open>
  \<open>getEntryPoint\<close> as compiled with assertions: \<open>assert(entryPoint)\<close> ends the
  process when the loop found no function.
\<close>

definition getEntryPoint :: "Module \<Rightarrow> fault + nat" where
  "getEntryPoint module =
     (case findEntryPoint (getFunctionList module) 0 of
        None \<Rightarrow> Inl EntryPointAssert
      | Some entryPoint \<Rightarrow> Inr entryPoint)"

text \<open>
  \<open>getEntryPoint\<close> as compiled with \<open>NDEBUG\<close>: the assertion is gone and
  \<open>return entryPoint\<close> hands back what the loop left, \<open>None\<close> for the null
  pointer.
\<close>

definition getEntryPoint_NDEBUG :: "Module \<Rightarrow> fault + nat option" where
  "getEntryPoint_NDEBUG module = Inr (findEntryPoint (getFunctionList module) 0)"

section \<open>The shader stage attached to the entry function\<close>

text \<open>
  Modelled from the spec: the enumeration \<open>ShaderStage\<close> is declared outside
  llpcSpirvLowerUtil.cpp. The spec lists its variants: vertex, tessellation control,
  tessellation evaluation, geometry, fragment, compute, the ray-tracing stages, task, mesh
  and the invalid sentinel.
\<close>

datatype ShaderStage =
    ShaderStageTask
  | ShaderStageVertex
  | ShaderStageTessControl
  | ShaderStageTessEval
  | ShaderStageGeometry
  | ShaderStageMesh
  | ShaderStageFragment
  | ShaderStageCompute
  | ShaderStageRayTracingRayGen
  | ShaderStageRayTracingIntersect
  | ShaderStageRayTracingAnyHit
  | ShaderStageRayTracingClosestHit
  | ShaderStageRayTracingMiss
  | ShaderStageRayTracingCallable
  | ShaderStageInvalid

text \<open>
  Modelled from the spec: the execution-model code is the integer stored in the metadata;
  the source stores it in an \<open>i32\<close> constant. The conversion functions
  \<open>convertToShaderStage\<close> and \<open>convertToExecModel\<close> are defined outside
  llpcSpirvLowerUtil.cpp and are parameters of the two operations that call them.
\<close>

type_synonym ExecutionModel = "32 word"

text \<open>
  Modelled from the spec: the metadata key \<open>gSPIRVMD::ExecutionModel\<close> is a constant
  declared outside llpcSpirvLowerUtil.cpp; the spec names it "ExecutionModel".
\<close>

definition gSPIRVMD_ExecutionModel :: string where
  "gSPIRVMD_ExecutionModel = ''ExecutionModel''"

text \<open>
  \<open>getShaderStageFromModule\<close> returns the stage together with the module, which no
  line of it writes to. The \<open>uint64_t\<close> read from the constant is passed to
  \<open>convertToShaderStage\<close> as an execution-model code, which keeps its low 32 bits.
\<close>

definition getShaderStageFromModule ::
  "(ExecutionModel \<Rightarrow> ShaderStage) \<Rightarrow> Module \<Rightarrow> fault + ShaderStage \<times> Module" where
  "getShaderStageFromModule convertToShaderStage module =
     (case getEntryPoint module of
        Inl e \<Rightarrow> Inl e
      | Inr func \<Rightarrow>
          (case getMetadata (getFunctionList module ! func) gSPIRVMD_ExecutionModel of
             None \<Rightarrow> Inr (ShaderStageInvalid, module)
           | Some execModelNode \<Rightarrow>
               (case getOperand execModelNode 0 of
                  Inl e \<Rightarrow> Inl e
                | Inr operand \<Rightarrow>
                    (case dyn_extract_ConstantInt operand of
                       Inl e \<Rightarrow> Inl e
                     | Inr extracted \<Rightarrow>
                         (case getZExtValue extracted of
                            Inl e \<Rightarrow> Inl e
                          | Inr execModel \<Rightarrow>
                              Inr (convertToShaderStage (ucast execModel), module))))))"

text \<open>
  \<open>setShaderStageToModule\<close> changes the entry function in place: the module it
  returns has the new attachment on the function at the entry point's position.
\<close>

definition setShaderStageToModule ::
  "(ShaderStage \<Rightarrow> ExecutionModel) \<Rightarrow> Module \<Rightarrow> ShaderStage \<Rightarrow> fault + Module" where
  "setShaderStageToModule convertToExecModel module shaderStage =
     (case getEntryPoint module of
        Inl e \<Rightarrow> Inl e
      | Inr func \<Rightarrow>
          (let execModel = convertToExecModel shaderStage;
               execModelMeta = [Some (ConstantAsMetadata (ConstantInt_get 32 (unat execModel)))];
               execModelMetaNode = MDNode_get execModelMeta
           in Inr (module\<lparr>getFunctionList :=
                 (getFunctionList module)
                   [func := setMetadata (getFunctionList module ! func)
                              gSPIRVMD_ExecutionModel execModelMetaNode]\<rparr>)))"

section \<open>appendZeroIndexToMatchTypes\<close>

datatype Type =
    VoidTy
  | HalfTy
  | FloatTy
  | DoubleTy
  | IntegerTy nat
  | PointerTy nat
  | StructTy "string option" "Type list"
  | ArrayTy Type nat
  | VectorTy Type nat

fun isStructTy :: "Type \<Rightarrow> bool" where
  "isStructTy (StructTy name members) = True"
| "isStructTy _ = False"

fun isArrayTy :: "Type \<Rightarrow> bool" where
  "isArrayTy (ArrayTy element n) = True"
| "isArrayTy _ = False"

fun isVectorTy :: "Type \<Rightarrow> bool" where
  "isVectorTy (VectorTy element n) = True"
| "isVectorTy _ = False"

text \<open>
  The three accessors assert that the type has the kind they are asked about, and
  \<open>getStructElementType\<close> that the member exists.
\<close>

fun getStructElementType :: "Type \<Rightarrow> nat \<Rightarrow> fault + Type" where
  "getStructElementType (StructTy name members) n =
     (if n < length members then Inr (members ! n) else Inl LibraryAssert)"
| "getStructElementType _ n = Inl LibraryAssert"

fun getArrayElementType :: "Type \<Rightarrow> fault + Type" where
  "getArrayElementType (ArrayTy element n) = Inr element"
| "getArrayElementType _ = Inl LibraryAssert"

fun getElementType :: "Type \<Rightarrow> fault + Type" where
  "getElementType (VectorTy element n) = Inr element"
| "getElementType _ = Inl LibraryAssert"

text \<open>The entries of \<open>indexOperands\<close> are IR values: constants, or values with a name.\<close>

datatype Value =
    ConstantValue Constant
  | Argument string
  | Instruction string

record Builder =
  getBuilderContext :: nat

definition getInt32 :: "Builder \<Rightarrow> 32 word \<Rightarrow> Value" where
  "getInt32 builder c = ConstantValue (ConstantInt_get 32 (unat c))"

text \<open>
  The \<open>while\<close> loop of \<open>appendZeroIndexToMatchTypes\<close>, with \<open>zero\<close> computed before
  it and the cursor \<open>unpackType\<close>. Each round appends \<open>zero\<close> and then moves the
  cursor; a round that ends the process leaves no list behind. The last branch is
  \<open>llvm_unreachable\<close> as compiled with assertions. A type is a finite tree and each
  round moves the cursor to a proper part of it, so the loop ends.
\<close>

function unpackLoop :: "Value \<Rightarrow> Value list \<Rightarrow> Type \<Rightarrow> Type \<Rightarrow> fault + Value list" where
  "unpackLoop zero indexOperands typeToMatch unpackType =
     (if unpackType \<noteq> typeToMatch then
        (if isStructTy unpackType then
           (case getStructElementType unpackType 0 of
              Inl e \<Rightarrow> Inl e
            | Inr element \<Rightarrow> unpackLoop zero (indexOperands @ [zero]) typeToMatch element)
         else if isArrayTy unpackType then
           (case getArrayElementType unpackType of
              Inl e \<Rightarrow> Inl e
            | Inr element \<Rightarrow> unpackLoop zero (indexOperands @ [zero]) typeToMatch element)
         else if isVectorTy unpackType then
           (case getElementType unpackType of
              Inl e \<Rightarrow> Inl e
            | Inr element \<Rightarrow> unpackLoop zero (indexOperands @ [zero]) typeToMatch element)
         else Inl UnreachableExecuted)
      else Inr indexOperands)"
  by pat_completeness auto
termination
proof (relation "measure (\<lambda>(zero, indexOperands, typeToMatch, unpackType). size unpackType)")
  fix unpackType element :: Type
  assume "getStructElementType unpackType 0 = Inr element"
  then obtain name members where t: "unpackType = StructTy name members"
    and m: "members \<noteq> []" "element = members ! 0"
    by (cases unpackType) (auto split: if_splits)
  from m have "element \<in> set members" by simp
  then have "size element \<le> size_list size members"
    by (simp add: size_list_estimation')
  with t show "((zero, indexOperands @ [zero], typeToMatch, element),
                zero, indexOperands, typeToMatch, unpackType)
               \<in> measure (\<lambda>(zero, indexOperands, typeToMatch, unpackType). size unpackType)"
    for zero :: Value and indexOperands and typeToMatch :: Type
    by simp
next
  fix unpackType element :: Type
  assume "getArrayElementType unpackType = Inr element"
  then show "((zero, indexOperands @ [zero], typeToMatch, element),
              zero, indexOperands, typeToMatch, unpackType)
             \<in> measure (\<lambda>(zero, indexOperands, typeToMatch, unpackType). size unpackType)"
    for zero :: Value and indexOperands and typeToMatch :: Type
    by (cases unpackType) auto
next
  fix unpackType element :: Type
  assume "getElementType unpackType = Inr element"
  then show "((zero, indexOperands @ [zero], typeToMatch, element),
              zero, indexOperands, typeToMatch, unpackType)
             \<in> measure (\<lambda>(zero, indexOperands, typeToMatch, unpackType). size unpackType)"
    for zero :: Value and indexOperands and typeToMatch :: Type
    by (cases unpackType) auto
qed simp

definition appendZeroIndexToMatchTypes ::
  "Builder \<Rightarrow> Value list \<Rightarrow> Type \<Rightarrow> Type \<Rightarrow> fault + Value list" where
  "appendZeroIndexToMatchTypes builder indexOperands typeToMatch packType =
     unpackLoop (getInt32 builder 0) indexOperands typeToMatch packType"

text \<open>
  The spec's words for one unwrap level: a struct gives its first member's type, an
  array and a vector their element type, anything else has no unwrap step.
  \<open>unwrapLevels k t\<close> is the type \<open>k\<close> levels below \<open>t\<close>.
\<close>

fun firstElementType :: "Type \<Rightarrow> Type option" where
  "firstElementType (StructTy name (first # others)) = Some first"
| "firstElementType (ArrayTy element n) = Some element"
| "firstElementType (VectorTy element n) = Some element"
| "firstElementType _ = None"

fun unwrapLevels :: "nat \<Rightarrow> Type \<Rightarrow> Type option" where
  "unwrapLevels 0 t = Some t"
| "unwrapLevels (Suc k) t =
     (case firstElementType t of None \<Rightarrow> None | Some t' \<Rightarrow> unwrapLevels k t')"

section \<open>Example values\<close>

text \<open>
  Modelled from the spec: \<open>convertToExecModel\<close> and \<open>convertToShaderStage\<close> are
  defined outside llpcSpirvLowerUtil.cpp, and the spec gives no table for them. This pair
  uses the execution-model numbers of SPIR-V; it is one instance of the two parameters,
  for the examples below.
\<close>

fun spirvExecModel :: "ShaderStage \<Rightarrow> ExecutionModel" where
  "spirvExecModel ShaderStageVertex = 0"
| "spirvExecModel ShaderStageTessControl = 1"
| "spirvExecModel ShaderStageTessEval = 2"
| "spirvExecModel ShaderStageGeometry = 3"
| "spirvExecModel ShaderStageFragment = 4"
| "spirvExecModel ShaderStageCompute = 5"
| "spirvExecModel ShaderStageRayTracingRayGen = 5313"
| "spirvExecModel ShaderStageRayTracingIntersect = 5314"
| "spirvExecModel ShaderStageRayTracingAnyHit = 5315"
| "spirvExecModel ShaderStageRayTracingClosestHit = 5316"
| "spirvExecModel ShaderStageRayTracingMiss = 5317"
| "spirvExecModel ShaderStageRayTracingCallable = 5318"
| "spirvExecModel ShaderStageTask = 5364"
| "spirvExecModel ShaderStageMesh = 5365"
| "spirvExecModel ShaderStageInvalid = 2147483647"

definition spirvShaderStage :: "ExecutionModel \<Rightarrow> ShaderStage" where
  "spirvShaderStage execModel =
     (if execModel = 0 then ShaderStageVertex
      else if execModel = 1 then ShaderStageTessControl
      else if execModel = 2 then ShaderStageTessEval
      else if execModel = 3 then ShaderStageGeometry
      else if execModel = 4 then ShaderStageFragment
      else if execModel = 5 then ShaderStageCompute
      else if execModel = 5313 then ShaderStageRayTracingRayGen
      else if execModel = 5314 then ShaderStageRayTracingIntersect
      else if execModel = 5315 then ShaderStageRayTracingAnyHit
      else if execModel = 5316 then ShaderStageRayTracingClosestHit
      else if execModel = 5317 then ShaderStageRayTracingMiss
      else if execModel = 5318 then ShaderStageRayTracingCallable
      else if execModel = 5364 then ShaderStageTask
      else if execModel = 5365 then ShaderStageMesh
      else ShaderStageInvalid)"

text \<open>
  A module in the shape of the spec's scenario: a declaration, an internal helper with a
  body, the externally linked \<open>main\<close> with a body, and another internal helper.
\<close>

definition declaredFunction :: Function where
  "declaredFunction =
     \<lparr>getName = ''lgc.create.read.generic.input'', basicBlocks = [],
      getLinkage = ExternalLinkage, attachments = []\<rparr>"

definition helperFunction :: Function where
  "helperFunction =
     \<lparr>getName = ''helper'', basicBlocks = [''.entry'', ''.exit''],
      getLinkage = InternalLinkage, attachments = []\<rparr>"

definition mainFunction :: Function where
  "mainFunction =
     \<lparr>getName = ''main'', basicBlocks = [''.entry''],
      getLinkage = ExternalLinkage, attachments = []\<rparr>"

definition exampleModule :: Module where
  "exampleModule =
     \<lparr>getContext = 0,
      getFunctionList =
        [declaredFunction, helperFunction, mainFunction,
         helperFunction\<lparr>getName := ''helper2''\<rparr>]\<rparr>"

text \<open>A module with no function that has a body and external linkage.\<close>

definition libraryModule :: Module where
  "libraryModule = \<lparr>getContext = 0, getFunctionList = [declaredFunction, helperFunction]\<rparr>"



definition exampleBuilder :: Builder where
  "exampleBuilder = \<lparr>getBuilderContext = 0\<rparr>"

section \<open>Properties of getEntryPoint\<close>

lemma findEntryPoint_first:
  assumes "\<not> empty_body f" and "getLinkage f = ExternalLinkage"
    and "\<forall>g \<in> set pre. empty_body g \<or> getLinkage g \<noteq> ExternalLinkage"
  shows "findEntryPoint (pre @ f # post) i = Some (i + length pre)"
  using assms by (induction pre arbitrary: i) auto

lemma findEntryPoint_none:
  assumes "\<forall>g \<in> set fs. empty_body g \<or> getLinkage g \<noteq> ExternalLinkage"
  shows "findEntryPoint fs i = None"
  using assms by (induction fs arbitrary: i) auto

text \<open>
  C1. Whenever a module holds a function that has a body and external linkage,
  \<open>getEntryPoint\<close> returns the first such function in the order of the function list:
  if \<open>f\<close> has a body and external linkage and no function before it has both, the
  result is the position of \<open>f\<close>, whatever follows \<open>f\<close>. In particular, when
  \<open>f\<close> is the only such function, the functions around it, with internal linkage or
  without a body, do not change the result.
\<close>

theorem getEntryPoint_first_defined_external:
  assumes "getFunctionList module = pre @ f # post"
    and "\<not> empty_body f" and "getLinkage f = ExternalLinkage"
    and "\<forall>g \<in> set pre. empty_body g \<or> getLinkage g \<noteq> ExternalLinkage"
  shows "getEntryPoint module = Inr (length pre) \<and> getFunctionList module ! length pre = f"
  using assms findEntryPoint_first [of f pre post 0]
  by (simp add: getEntryPoint_def)

theorem getEntryPoint_first_defined_external_witness:
  "getEntryPoint exampleModule = Inr 2 \<and> getFunctionList exampleModule ! 2 = mainFunction"
  using getEntryPoint_first_defined_external
    [of exampleModule "[declaredFunction, helperFunction]" mainFunction
      "[helperFunction\<lparr>getName := ''helper2''\<rparr>]"]
  by (simp add: exampleModule_def declaredFunction_def helperFunction_def mainFunction_def
      empty_body_def)

section \<open>Properties of appendZeroIndexToMatchTypes\<close>

lemma firstElementType_smaller:
  "firstElementType t = Some t' \<Longrightarrow> size t' < size t"
  by (induction t rule: firstElementType.induct) auto

lemma unwrapLevels_size:
  "unwrapLevels k t = Some t' \<Longrightarrow> size t' \<le> size t"
proof (induction k arbitrary: t)
  case 0
  then show ?case by simp
next
  case (Suc k)
  then obtain u where u: "firstElementType t = Some u" "unwrapLevels k u = Some t'"
    by (auto split: option.splits)
  with Suc.IH [of u] firstElementType_smaller [of t u] show ?case by simp
qed

text \<open>No type lies below itself, so a type is met at one depth only.\<close>

lemma unwrapLevels_self:
  "unwrapLevels k t = Some t \<Longrightarrow> k = 0"
proof (cases k)
  case (Suc j)
  assume "unwrapLevels k t = Some t"
  with Suc obtain u where "firstElementType t = Some u" "unwrapLevels j u = Some t"
    by (auto split: option.splits)
  with firstElementType_smaller [of t u] unwrapLevels_size [of j u t] show ?thesis
    by simp
qed simp

text \<open>One round of the loop, and the two ways it stops.\<close>

lemma unpackLoop_done:
  "unpackLoop z ops T T = Inr ops"
  by simp

lemma unpackLoop_step:
  assumes "firstElementType t = Some u" and "t \<noteq> T"
  shows "unpackLoop z ops T t = unpackLoop z (ops @ [z]) T u"
  using assms by (cases t rule: firstElementType.cases) simp_all

lemma unpackLoop_stuck:
  assumes "\<not> isStructTy t" and "\<not> isArrayTy t" and "\<not> isVectorTy t" and "t \<noteq> T"
  shows "unpackLoop z ops T t = Inl UnreachableExecuted"
  using assms by simp

lemma unpackLoop_levels:
  "unwrapLevels k t = Some T \<Longrightarrow> unpackLoop z ops T t = Inr (ops @ replicate k z)"
proof (induction k arbitrary: t ops)
  case 0
  then show ?case by (simp add: unpackLoop_done)
next
  case (Suc k)
  then obtain u where u: "firstElementType t = Some u" "unwrapLevels k u = Some T"
    by (auto split: option.splits)
  from Suc.prems unwrapLevels_self [of "Suc k" t] have "t \<noteq> T" by auto
  with u(1) have "unpackLoop z ops T t = unpackLoop z (ops @ [z]) T u"
    by (rule unpackLoop_step)
  with Suc.IH [OF u(2), of "ops @ [z]"] show ?case
    by (simp add: replicate_app_Cons_same)
qed

lemma unpackLoop_returns:
  "unpackLoop z ops T t = Inr ops' \<Longrightarrow>
     \<exists>k. unwrapLevels k t = Some T \<and> ops' = ops @ replicate k z"
proof (induction z ops T t rule: unpackLoop.induct)
  case (1 z ops T t)
  show ?case
  proof (cases "t = T")
    case True
    with "1.prems" have "unwrapLevels 0 t = Some T \<and> ops' = ops @ replicate 0 z"
      by (simp add: unpackLoop_done)
    then show ?thesis by blast
  next
    case False
    with "1.prems" obtain u where u: "firstElementType t = Some u"
      and r: "unpackLoop z (ops @ [z]) T u = Inr ops'"
      and s: "isStructTy t \<and> getStructElementType t 0 = Inr u
            \<or> \<not> isStructTy t \<and> isArrayTy t \<and> getArrayElementType t = Inr u
            \<or> \<not> isStructTy t \<and> \<not> isArrayTy t \<and> isVectorTy t \<and> getElementType t = Inr u"
      by (cases t rule: firstElementType.cases) (auto split: if_splits)
    from s False r "1.IH" obtain k where
      "unwrapLevels k u = Some T" "ops' = (ops @ [z]) @ replicate k z"
      by blast
    with u have "unwrapLevels (Suc k) t = Some T \<and> ops' = ops @ replicate (Suc k) z"
      by (simp add: replicate_app_Cons_same)
    then show ?thesis by blast
  qed
qed

text \<open>
  C2. When \<open>typeToMatch\<close> lies \<open>k\<close> unwrap levels below \<open>packType\<close> (a struct
  gives its first member's type, an array and a vector their element type),
  \<open>appendZeroIndexToMatchTypes\<close> returns \<open>indexOperands\<close> with exactly \<open>k\<close>
  entries appended, so the length grows by the number of levels. For a struct whose
  first member is an array of 4 elements of \<open>typeToMatch\<close> it appends exactly 2
  entries, and for \<open>packType = typeToMatch\<close> it appends none and returns the list as
  it was.
\<close>

theorem appendZeroIndexToMatchTypes_appends_levels:
  "(unwrapLevels k packType = Some typeToMatch \<longrightarrow>
      (\<exists>appended.
         appendZeroIndexToMatchTypes builder indexOperands typeToMatch packType
           = Inr (indexOperands @ appended)
         \<and> length appended = k))
   \<and> (\<exists>appended.
         appendZeroIndexToMatchTypes builder indexOperands typeToMatch
           (StructTy name (ArrayTy typeToMatch 4 # others))
           = Inr (indexOperands @ appended)
         \<and> length appended = 2)
   \<and> appendZeroIndexToMatchTypes builder indexOperands typeToMatch typeToMatch
         = Inr indexOperands"
proof (intro conjI impI)
  let ?zero = "getInt32 builder 0"
  assume "unwrapLevels k packType = Some typeToMatch"
  then have "appendZeroIndexToMatchTypes builder indexOperands typeToMatch packType
      = Inr (indexOperands @ replicate k ?zero)"
    unfolding appendZeroIndexToMatchTypes_def by (rule unpackLoop_levels)
  then show "\<exists>appended.
      appendZeroIndexToMatchTypes builder indexOperands typeToMatch packType
        = Inr (indexOperands @ appended) \<and> length appended = k"
    by simp
next
  let ?zero = "getInt32 builder 0"
  have "unwrapLevels (Suc (Suc 0)) (StructTy name (ArrayTy typeToMatch 4 # others))
      = Some typeToMatch"
    by simp
  then have "appendZeroIndexToMatchTypes builder indexOperands typeToMatch
      (StructTy name (ArrayTy typeToMatch 4 # others))
      = Inr (indexOperands @ replicate (Suc (Suc 0)) ?zero)"
    unfolding appendZeroIndexToMatchTypes_def by (rule unpackLoop_levels)
  then show "\<exists>appended.
      appendZeroIndexToMatchTypes builder indexOperands typeToMatch
        (StructTy name (ArrayTy typeToMatch 4 # others))
        = Inr (indexOperands @ appended) \<and> length appended = 2"
    by simp
next
  show "appendZeroIndexToMatchTypes builder indexOperands typeToMatch typeToMatch
      = Inr indexOperands"
    by (simp add: appendZeroIndexToMatchTypes_def unpackLoop_done)
qed

theorem appendZeroIndexToMatchTypes_appends_levels_witness:
  "unwrapLevels 3 (ArrayTy (StructTy (Some ''Light'') [VectorTy FloatTy 4, IntegerTy 32]) 8)
     = Some FloatTy
   \<and> (\<exists>appended.
         appendZeroIndexToMatchTypes exampleBuilder [Argument ''base'', Instruction ''idx'']
           FloatTy (ArrayTy (StructTy (Some ''Light'') [VectorTy FloatTy 4, IntegerTy 32]) 8)
           = Inr ([Argument ''base'', Instruction ''idx''] @ appended)
         \<and> length appended = 3)"
  using appendZeroIndexToMatchTypes_appends_levels
    [of 3 "ArrayTy (StructTy (Some ''Light'') [VectorTy FloatTy 4, IntegerTy 32]) 8" FloatTy
      exampleBuilder "[Argument ''base'', Instruction ''idx'']"]
  by (simp add: eval_nat_numeral)

text \<open>
  C6. Frame property of \<open>appendZeroIndexToMatchTypes\<close>: the list after a call is the
  list before the call followed by the appended entries, so every prior entry keeps its
  value and its position. The appended entries are those the call appends to an empty
  list: they do not depend on the prior entries. The list is the only thing the operation
  returns; it changes nothing else.
\<close>

theorem appendZeroIndexToMatchTypes_only_appends:
  assumes "appendZeroIndexToMatchTypes builder indexOperands typeToMatch packType
             = Inr indexOperands'"
  shows "\<exists>appended. indexOperands' = indexOperands @ appended
           \<and> appendZeroIndexToMatchTypes builder [] typeToMatch packType = Inr appended"
proof -
  let ?zero = "getInt32 builder 0"
  from assms obtain k where k: "unwrapLevels k packType = Some typeToMatch"
    and r: "indexOperands' = indexOperands @ replicate k ?zero"
    unfolding appendZeroIndexToMatchTypes_def by (blast dest: unpackLoop_returns)
  from k have "appendZeroIndexToMatchTypes builder [] typeToMatch packType
      = Inr ([] @ replicate k ?zero)"
    unfolding appendZeroIndexToMatchTypes_def by (rule unpackLoop_levels)
  with r show ?thesis by simp
qed

theorem appendZeroIndexToMatchTypes_only_appends_witness:
  "\<exists>appended.
     [Argument ''base'', Instruction ''idx'', ConstantValue (ConstantInt 32 0)]
       = [Argument ''base'', Instruction ''idx''] @ appended
     \<and> appendZeroIndexToMatchTypes exampleBuilder [] (IntegerTy 16) (VectorTy (IntegerTy 16) 2)
         = Inr appended"
proof -
  have "appendZeroIndexToMatchTypes exampleBuilder [Argument ''base'', Instruction ''idx'']
      (IntegerTy 16) (VectorTy (IntegerTy 16) 2)
      = Inr [Argument ''base'', Instruction ''idx'', ConstantValue (ConstantInt 32 0)]"
    by (simp add: appendZeroIndexToMatchTypes_def getInt32_def ConstantInt_get_def)
  then show ?thesis by (rule appendZeroIndexToMatchTypes_only_appends)
qed

text \<open>
  C8. Every entry that \<open>appendZeroIndexToMatchTypes\<close> appends is the value of
  \<open>builder->getInt32(0)\<close>, the integer constant of width 32 and value 0: every element
  of the list after the call beyond the prior length is that constant.
\<close>

theorem appendZeroIndexToMatchTypes_appends_int32_zero:
  assumes "appendZeroIndexToMatchTypes builder indexOperands typeToMatch packType
             = Inr indexOperands'"
  shows "getInt32 builder 0 = ConstantValue (ConstantInt 32 0)
         \<and> (\<forall>v \<in> set (drop (length indexOperands) indexOperands').
               v = ConstantValue (ConstantInt 32 0))"
proof -
  from assms obtain k where
    "indexOperands' = indexOperands @ replicate k (getInt32 builder 0)"
    unfolding appendZeroIndexToMatchTypes_def by (blast dest: unpackLoop_returns)
  then show ?thesis by (simp add: getInt32_def ConstantInt_get_def)
qed

theorem appendZeroIndexToMatchTypes_appends_int32_zero_witness:
  "appendZeroIndexToMatchTypes exampleBuilder [Instruction ''row'']
      HalfTy (ArrayTy (ArrayTy (VectorTy HalfTy 2) 3) 5)
     = Inr [Instruction ''row'', ConstantValue (ConstantInt 32 0),
            ConstantValue (ConstantInt 32 0), ConstantValue (ConstantInt 32 0)]
   \<and> set (drop (length [Instruction ''row''])
            [Instruction ''row'', ConstantValue (ConstantInt 32 0),
             ConstantValue (ConstantInt 32 0), ConstantValue (ConstantInt 32 0)])
       = {ConstantValue (ConstantInt 32 0)}"
proof -
  have r: "appendZeroIndexToMatchTypes exampleBuilder [Instruction ''row'']
      HalfTy (ArrayTy (ArrayTy (VectorTy HalfTy 2) 3) 5)
     = Inr [Instruction ''row'', ConstantValue (ConstantInt 32 0),
            ConstantValue (ConstantInt 32 0), ConstantValue (ConstantInt 32 0)]"
    by (simp add: appendZeroIndexToMatchTypes_def getInt32_def ConstantInt_get_def)
  from appendZeroIndexToMatchTypes_appends_int32_zero [OF r] r show ?thesis
    by simp
qed

section \<open>Properties of the shader-stage accessors\<close>

text \<open>The entry point is a position of the function list.\<close>

lemma findEntryPoint_range:
  "findEntryPoint fs n = Some i \<Longrightarrow> n \<le> i \<and> i < n + length fs"
proof (induction fs arbitrary: n)
  case Nil
  then show ?case by simp
next
  case (Cons f fs)
  show ?case
  proof (cases "\<not> empty_body f \<and> getLinkage f = ExternalLinkage")
    case True
    with Cons.prems show ?thesis by simp
  next
    case False
    with Cons.prems have "findEntryPoint fs (Suc n) = Some i" by auto
    from Cons.IH [OF this] show ?thesis by simp
  qed
qed

lemma getEntryPoint_range:
  "getEntryPoint module = Inr func \<Longrightarrow> func < length (getFunctionList module)"
  using findEntryPoint_range [of "getFunctionList module" 0 func]
  by (auto simp: getEntryPoint_def split: option.splits)

text \<open>
  Attaching metadata changes neither the body nor the linkage of a function, so the
  entry point stays where it is.
\<close>

lemma findEntryPoint_setMetadata:
  "findEntryPoint (fs[i := setMetadata (fs ! i) kind node]) n = findEntryPoint fs n"
proof (induction fs arbitrary: i n)
  case Nil
  then show ?case by simp
next
  case (Cons f fs)
  then show ?case
    by (cases i) (simp_all add: setMetadata_def empty_body_def)
qed

lemma getEntryPoint_setMetadata:
  "getEntryPoint (module\<lparr>getFunctionList := (getFunctionList module)
      [i := setMetadata (getFunctionList module ! i) kind node]\<rparr>) = getEntryPoint module"
  by (simp add: getEntryPoint_def findEntryPoint_setMetadata)

lemma getMetadata_setMetadata:
  "getMetadata (setMetadata f kind node) kind = Some node"
proof -
  have "map_of (filter (\<lambda>a. fst a \<noteq> kind) xs) kind = None"
    for xs :: "(string \<times> MDNode) list"
    by (induction xs) auto
  then show ?thesis
    by (simp add: getMetadata_def setMetadata_def map_add_def)
qed

lemma setMetadata_twice:
  "setMetadata (setMetadata f kind node) kind node = setMetadata f kind node"
  by (simp add: setMetadata_def)

text \<open>
  An execution-model code written as an \<open>i32\<close> constant is read back unchanged.
\<close>

lemma getZExtValue_ConstantInt_get_32:
  "getZExtValue (Some (ConstantInt_get 32 (unat (e :: 32 word)))) = Inr (ucast e)"
proof -
  have "unat e < 2 ^ 32" using unsigned_less [of e, where ?'a = nat] by simp
  then show ?thesis by (simp add: ConstantInt_get_def)
qed

lemma ucast_64_32: "ucast (ucast (e :: 32 word) :: 64 word) = e"
  by (rule ucast_up_ucast_id) (simp add: is_up)

text \<open>What \<open>setShaderStageToModule\<close> returns when the module has an entry point.\<close>

lemma setShaderStageToModule_entry:
  assumes "getEntryPoint module = Inr func"
  shows "setShaderStageToModule convertToExecModel module shaderStage =
    Inr (module\<lparr>getFunctionList := (getFunctionList module)
      [func := setMetadata (getFunctionList module ! func) gSPIRVMD_ExecutionModel
         [Some (ConstantAsMetadata
            (ConstantInt_get 32 (unat (convertToExecModel shaderStage))))]]\<rparr>)"
  using assms by (simp add: setShaderStageToModule_def MDNode_get_def)

text \<open>Facts about the example values.\<close>

lemma spirv_pair:
  "\<forall>s. s \<noteq> ShaderStageInvalid \<longrightarrow> spirvShaderStage (spirvExecModel s) = s"
proof (intro allI impI)
  fix s show "spirvShaderStage (spirvExecModel s) = s"
    by (cases s) (simp_all add: spirvShaderStage_def)
qed

lemma exampleModule_entry: "getEntryPoint exampleModule = Inr 2"
  by (simp add: getEntryPoint_def exampleModule_def declaredFunction_def helperFunction_def
      mainFunction_def empty_body_def)



text \<open>
  C4. When the entry function of a module has no metadata under the "ExecutionModel"
  key, \<open>getShaderStageFromModule\<close> returns \<open>ShaderStageInvalid\<close>; it does not
  fail, and it leaves the module as it was.
\<close>

theorem untagged_entry_gives_invalid_stage:
  assumes "getEntryPoint module = Inr func"
    and "getMetadata (getFunctionList module ! func) gSPIRVMD_ExecutionModel = None"
  shows "getShaderStageFromModule convertToShaderStage module
           = Inr (ShaderStageInvalid, module)"
  using assms by (simp add: getShaderStageFromModule_def)

theorem untagged_entry_gives_invalid_stage_witness:
  "getEntryPoint exampleModule = Inr 2
   \<and> getMetadata (getFunctionList exampleModule ! 2) gSPIRVMD_ExecutionModel = None
   \<and> getShaderStageFromModule spirvShaderStage exampleModule
       = Inr (ShaderStageInvalid, exampleModule)"
proof -
  have "getMetadata (getFunctionList exampleModule ! 2) gSPIRVMD_ExecutionModel = None"
    by (simp add: exampleModule_def mainFunction_def getMetadata_def)
  with exampleModule_entry show ?thesis
    using untagged_entry_gives_invalid_stage [of exampleModule 2 spirvShaderStage]
    by simp
qed

text \<open>
  C3. Round trip: let \<open>convertToShaderStage\<close> undo \<open>convertToExecModel\<close> on every
  stage other than \<open>ShaderStageInvalid\<close>. For every such stage \<open>s\<close> and every
  module with an entry point, \<open>setShaderStageToModule\<close> returns a module on which
  \<open>getShaderStageFromModule\<close> returns \<open>s\<close>.
\<close>

theorem set_then_get_shader_stage:
  assumes "\<forall>s. s \<noteq> ShaderStageInvalid \<longrightarrow> convertToShaderStage (convertToExecModel s) = s"
    and "shaderStage \<noteq> ShaderStageInvalid"
    and "getEntryPoint module = Inr func"
  shows "\<exists>module'.
      setShaderStageToModule convertToExecModel module shaderStage = Inr module'
      \<and> getShaderStageFromModule convertToShaderStage module' = Inr (shaderStage, module')"
proof -
  let ?node = "[Some (ConstantAsMetadata
      (ConstantInt_get 32 (unat (convertToExecModel shaderStage))))]"
  let ?module' = "module\<lparr>getFunctionList := (getFunctionList module)
      [func := setMetadata (getFunctionList module ! func) gSPIRVMD_ExecutionModel ?node]\<rparr>"
  from assms(3) have written: "setShaderStageToModule convertToExecModel module shaderStage
      = Inr ?module'"
    by (rule setShaderStageToModule_entry)
  from assms(3) have entry: "getEntryPoint ?module' = Inr func"
    by (simp add: getEntryPoint_setMetadata)
  from assms(3) have "func < length (getFunctionList module)"
    by (rule getEntryPoint_range)
  then have node: "getMetadata (getFunctionList ?module' ! func) gSPIRVMD_ExecutionModel
      = Some ?node"
    by (simp add: getMetadata_setMetadata)
  have "ConstantInt_get 32 (unat (convertToExecModel shaderStage)) =
      ConstantInt 32 (unat (convertToExecModel shaderStage) mod 2 ^ 32)"
    by (simp add: ConstantInt_get_def)
  then have wrapped: "dyn_extract_ConstantInt (Some (ConstantAsMetadata
      (ConstantInt_get 32 (unat (convertToExecModel shaderStage)))))
      = Inr (Some (ConstantInt_get 32 (unat (convertToExecModel shaderStage))))"
    by simp
  from assms(1,2) have "convertToShaderStage (convertToExecModel shaderStage) = shaderStage"
    by blast
  with entry node wrapped
  have "getShaderStageFromModule convertToShaderStage ?module' = Inr (shaderStage, ?module')"
    unfolding getShaderStageFromModule_def
    by (simp add: getOperand_def getZExtValue_ConstantInt_get_32 ucast_64_32
        del: dyn_extract_ConstantInt.simps getZExtValue.simps)
  with written show ?thesis by blast
qed

theorem set_then_get_shader_stage_witness:
  "\<exists>module'.
      setShaderStageToModule spirvExecModel exampleModule ShaderStageFragment = Inr module'
      \<and> getShaderStageFromModule spirvShaderStage module' = Inr (ShaderStageFragment, module')"
  using set_then_get_shader_stage [OF spirv_pair _ exampleModule_entry, of ShaderStageFragment]
  by simp

text \<open>
  C7. Idempotence: for every module with an entry point and every stage,
  \<open>setShaderStageToModule\<close> applied to its own result, with the same stage, returns
  that result again: the second call replaces the attachment by an equal node, and the
  module, with all its metadata, is the same as after one call.
\<close>

theorem setShaderStageToModule_idempotent:
  assumes "getEntryPoint module = Inr func"
  shows "\<exists>module'.
      setShaderStageToModule convertToExecModel module shaderStage = Inr module'
      \<and> setShaderStageToModule convertToExecModel module' shaderStage = Inr module'"
proof -
  let ?node = "[Some (ConstantAsMetadata
      (ConstantInt_get 32 (unat (convertToExecModel shaderStage))))]"
  let ?module' = "module\<lparr>getFunctionList := (getFunctionList module)
      [func := setMetadata (getFunctionList module ! func) gSPIRVMD_ExecutionModel ?node]\<rparr>"
  from assms have once: "setShaderStageToModule convertToExecModel module shaderStage
      = Inr ?module'"
    by (rule setShaderStageToModule_entry)
  from assms have "getEntryPoint ?module' = Inr func"
    by (simp add: getEntryPoint_setMetadata)
  then have "setShaderStageToModule convertToExecModel ?module' shaderStage
      = Inr (?module'\<lparr>getFunctionList := (getFunctionList ?module')
          [func := setMetadata (getFunctionList ?module' ! func)
             gSPIRVMD_ExecutionModel ?node]\<rparr>)"
    by (rule setShaderStageToModule_entry)
  moreover from assms have "func < length (getFunctionList module)"
    by (rule getEntryPoint_range)
  ultimately have "setShaderStageToModule convertToExecModel ?module' shaderStage
      = Inr ?module'"
    by (simp add: setMetadata_twice)
  with once show ?thesis by blast
qed

theorem setShaderStageToModule_idempotent_witness:
  "\<exists>module'.
      setShaderStageToModule spirvExecModel exampleModule ShaderStageCompute = Inr module'
      \<and> setShaderStageToModule spirvExecModel module' ShaderStageCompute = Inr module'"
  using exampleModule_entry by (rule setShaderStageToModule_idempotent)




section \<open>Precondition violations\<close>

text \<open>
  C5. Compiled with assertions, both precondition violations end the process and return
  no value. When no function of the module has a body and external linkage,
  \<open>getEntryPoint\<close> stops at its assertion. When the cursor of
  \<open>appendZeroIndexToMatchTypes\<close> reaches, after \<open>k\<close> levels, a type that is no
  struct, array or vector, and neither that type nor any cursor before it equals
  \<open>typeToMatch\<close>, the operation stops at \<open>llvm_unreachable\<close>. Compiled with
  \<open>NDEBUG\<close>, \<open>getEntryPoint\<close> returns on such a module, and what it returns is
  the null pointer.
\<close>

theorem precondition_violations_by_build:
  "((\<forall>f \<in> set (getFunctionList module).
        empty_body f \<or> getLinkage f \<noteq> ExternalLinkage) \<longrightarrow>
      getEntryPoint module = Inl EntryPointAssert
      \<and> getEntryPoint_NDEBUG module = Inr None)
   \<and> (unwrapLevels k packType = Some cursor
        \<and> (\<forall>j \<le> k. unwrapLevels j packType \<noteq> Some typeToMatch)
        \<and> \<not> isStructTy cursor \<and> \<not> isArrayTy cursor \<and> \<not> isVectorTy cursor \<longrightarrow>
      appendZeroIndexToMatchTypes builder indexOperands typeToMatch packType
        = Inl UnreachableExecuted)"
proof (intro conjI impI)
  assume "\<forall>f \<in> set (getFunctionList module). empty_body f \<or> getLinkage f \<noteq> ExternalLinkage"
  then have "findEntryPoint (getFunctionList module) 0 = None"
    by (rule findEntryPoint_none)
  then show "getEntryPoint module = Inl EntryPointAssert"
    by (simp add: getEntryPoint_def)
next
  assume "\<forall>f \<in> set (getFunctionList module). empty_body f \<or> getLinkage f \<noteq> ExternalLinkage"
  then have "findEntryPoint (getFunctionList module) 0 = None"
    by (rule findEntryPoint_none)
  then show "getEntryPoint_NDEBUG module = Inr None"
    by (simp add: getEntryPoint_NDEBUG_def)
next
  assume a: "unwrapLevels k packType = Some cursor
        \<and> (\<forall>j \<le> k. unwrapLevels j packType \<noteq> Some typeToMatch)
        \<and> \<not> isStructTy cursor \<and> \<not> isArrayTy cursor \<and> \<not> isVectorTy cursor"
  have "unwrapLevels k t = Some cursor \<Longrightarrow>
        \<forall>j \<le> k. unwrapLevels j t \<noteq> Some typeToMatch \<Longrightarrow>
        unpackLoop z ops typeToMatch t = Inl UnreachableExecuted" for t z ops
  proof (induction k arbitrary: t ops)
    case 0
    with a show ?case by (simp add: unpackLoop_stuck)
  next
    case (Suc k)
    from Suc.prems(1) obtain u where u: "firstElementType t = Some u"
      "unwrapLevels k u = Some cursor"
      by (auto split: option.splits)
    from Suc.prems(2) have ne: "t \<noteq> typeToMatch" by (auto dest: spec [of _ 0])
    have "\<forall>j \<le> k. unwrapLevels j u \<noteq> Some typeToMatch"
    proof (intro allI impI)
      fix j assume "j \<le> k"
      then have "Suc j \<le> Suc k" by simp
      with Suc.prems(2) have "unwrapLevels (Suc j) t \<noteq> Some typeToMatch" by blast
      with u(1) show "unwrapLevels j u \<noteq> Some typeToMatch" by simp
    qed
    with Suc.IH [OF u(2)] unpackLoop_step [OF u(1) ne] show ?case by simp
  qed
  with a show "appendZeroIndexToMatchTypes builder indexOperands typeToMatch packType
        = Inl UnreachableExecuted"
    by (simp add: appendZeroIndexToMatchTypes_def)
qed

theorem precondition_violations_by_build_witness:
  "getEntryPoint libraryModule = Inl EntryPointAssert
   \<and> getEntryPoint_NDEBUG libraryModule = Inr None
   \<and> unwrapLevels 2 (StructTy None [ArrayTy (IntegerTy 32) 4, FloatTy]) = Some (IntegerTy 32)
   \<and> appendZeroIndexToMatchTypes exampleBuilder [] FloatTy
         (StructTy None [ArrayTy (IntegerTy 32) 4, FloatTy]) = Inl UnreachableExecuted"
proof -
  have never: "\<forall>j \<le> 2. unwrapLevels j (StructTy None [ArrayTy (IntegerTy 32) 4, FloatTy])
      \<noteq> Some FloatTy"
  proof (intro allI impI)
    fix j :: nat
    assume "j \<le> 2"
    then consider "j = 0" | "j = 1" | "j = 2" by linarith
    then show "unwrapLevels j (StructTy None [ArrayTy (IntegerTy 32) 4, FloatTy])
        \<noteq> Some FloatTy"
      by cases (simp_all add: eval_nat_numeral)
  qed
  have none: "\<forall>f \<in> set (getFunctionList libraryModule).
      empty_body f \<or> getLinkage f \<noteq> ExternalLinkage"
    by (simp add: libraryModule_def declaredFunction_def helperFunction_def empty_body_def)
  from never none show ?thesis
    using precondition_violations_by_build
      [of libraryModule 2 "StructTy None [ArrayTy (IntegerTy 32) 4, FloatTy]" "IntegerTy 32"
        FloatTy exampleBuilder "[]"]
    by (simp add: eval_nat_numeral)
qed

text \<open>
  C5 does not hold of every build. Compiled with \<open>NDEBUG\<close>, \<open>getEntryPoint\<close> on
  a module with no function that has a body and external linkage finds none and returns
  the null pointer to its caller.
\<close>

theorem precondition_violations_by_build_counterexample:
  "findEntryPoint (getFunctionList libraryModule) 0 = None
   \<and> getEntryPoint_NDEBUG libraryModule = Inr None"
  by (simp add: getEntryPoint_NDEBUG_def libraryModule_def declaredFunction_def
      helperFunction_def empty_body_def)

end
